theory Spec2Isabelle
  imports Complex_Main "HOL-Library.Sublist"
begin

section \<open>Data model (shared/schema.ts)\<close>

text \<open>
  The \<open>receipts\<close> table. The columns \<open>amount\<close> and \<open>tax\<close> are \<open>numeric(10, 2)\<close>: the
  driver hands them to the server as decimal strings with two fractional digits, \<open>tax\<close>
  possibly \<open>null\<close>. Such a value is kept here as its number of cents; \<open>Number\<close> is the
  JavaScript conversion of the string to a number, taken in exact rational arithmetic.
  A decimal string is never empty, so a stored tax is truthy in JavaScript whatever its
  value (also \<open>"0.00"\<close>); \<open>None\<close> is \<open>null\<close>.
  The column \<open>date\<close> is a non-null timestamp, kept as the milliseconds since the epoch
  that \<open>Date.getTime()\<close> returns.
\<close>

type_synonym numeric = int

type_synonym timestamp = int

definition Number :: "numeric \<Rightarrow> rat" where
  "Number c = of_int c / 100"

record Receipt =
  rid :: nat
  userId :: string
  merchantName :: string
  date :: timestamp
  amount :: numeric
  tax :: "numeric option"
  category :: string
  description :: "string option"

section \<open>Tax derivation\<close>

text \<open>
  \<^verbatim>\<open>const getTax = (r: Receipt) =>
    r.tax ? Number(r.tax) : Number(r.amount) - Number(r.amount) / 1.05;\<close>
\<close>

definition getTax :: "Receipt \<Rightarrow> rat" where
  "getTax r =
     (case tax r of
        Some t \<Rightarrow> Number t
      | None \<Rightarrow> Number (amount r) - Number (amount r) / (105 / 100))"

section \<open>The JavaScript runtime: dates\<close>

text \<open>
  A \<open>Date\<close> is its time value in milliseconds, or Invalid Date (\<open>None\<close>). The server's
  time zone is taken to be UTC, so local and UTC calendar fields agree.
  \<open>MakeDay\<close> is the day number of ECMAScript's MakeDay (the month may lie outside 0..11,
  the day of the month outside the month: both carry over); \<open>civil\<close> is its inverse, giving
  the year and the month index of a day number (both by the era-based algorithm for the
  proleptic Gregorian calendar).
\<close>

type_synonym JSDate = "timestamp option"

definition msPerDay :: int where
  "msPerDay = 86400000"

definition MakeDay :: "int \<Rightarrow> int \<Rightarrow> int \<Rightarrow> int" where
  "MakeDay year month dt =
     (let ym = year + month div 12;
          mn = month mod 12;
          y = (if mn < 2 then ym - 1 else ym);
          era = y div 400;
          yoe = y - era * 400;
          doy = (153 * (if mn < 2 then mn + 10 else mn - 2) + 2) div 5;
          doe = yoe * 365 + yoe div 4 - yoe div 100 + doy
      in era * 146097 + doe - 719468 + dt - 1)"

definition civil :: "int \<Rightarrow> int \<times> nat" where
  "civil z =
     (let z' = z + 719468;
          era = z' div 146097;
          doe = z' - era * 146097;
          yoe = (doe - doe div 1460 + doe div 36524 - doe div 146096) div 365;
          doy = doe - (365 * yoe + yoe div 4 - yoe div 100);
          mp = (5 * doy + 2) div 153;
          mn = nat ((mp + 2) mod 12)
      in (if mn < 2 then yoe + era * 400 + 1 else yoe + era * 400, mn))"

definition getFullYear :: "timestamp \<Rightarrow> int" where
  "getFullYear t = fst (civil (t div msPerDay))"

definition getMonth :: "timestamp \<Rightarrow> nat" where
  "getMonth t = snd (civil (t div msPerDay))"

text \<open>
  \<open>new Date(year, month, day)\<close>: a year from 0 to 99 stands for 1900 + year.
\<close>

definition Date_ymd :: "int \<Rightarrow> int \<Rightarrow> int \<Rightarrow> timestamp" where
  "Date_ymd year month dt =
     MakeDay (if 0 \<le> year \<and> year \<le> 99 then 1900 + year else year) month dt * msPerDay"

text \<open>
  \<open>new Date(string)\<close> on the date-only ISO form \<open>YYYY-MM-DD\<close>, the format the API
  documents for its date parameters: midnight UTC of that day, the month from 01 to 12
  and the day from 01 to 31 (V8 carries a day beyond the month's end over into the next
  month). Any other string is taken to be Invalid Date.
\<close>

definition isDigit :: "char \<Rightarrow> bool" where
  "isDigit c = (c \<in> set ''0123456789'')"

definition digitVal :: "char \<Rightarrow> int" where
  "digitVal c = int (of_char c) - 48"

definition decimal :: "string \<Rightarrow> int" where
  "decimal s = foldl (\<lambda>a c. 10 * a + digitVal c) 0 s"

definition Date_parse :: "string \<Rightarrow> JSDate" where
  "Date_parse s =
     (if length s = 10 \<and> s ! 4 = CHR ''-'' \<and> s ! 7 = CHR ''-'' \<and>
         list_all isDigit (take 4 s) \<and> list_all isDigit (take 2 (drop 5 s)) \<and>
         list_all isDigit (drop 8 s)
      then
        (let y = decimal (take 4 s); m = decimal (take 2 (drop 5 s)); d = decimal (drop 8 s)
         in if 1 \<le> m \<and> m \<le> 12 \<and> 1 \<le> d \<and> d \<le> 31
            then Some (MakeDay y (m - 1) d * msPerDay) else None)
      else None)"

text \<open>
  The long month names, in calendar order: what \<open>toLocaleString('default', {month: 'long'})\<close>
  gives for a date in the month of that index (English locale), and the \<open>monthNames\<close>
  array of the export handlers.
\<close>

definition monthNames :: "string list" where
  "monthNames = [''January'', ''February'', ''March'', ''April'', ''May'', ''June'',
                 ''July'', ''August'', ''September'', ''October'', ''November'', ''December'']"


section \<open>Filter and selection (storage.getReceipts)\<close>

text \<open>
  The filter object. Every field is an optional string; \<open>None\<close> is \<open>undefined\<close>.
  The tests \<open>if (filters?.x)\<close> are JavaScript truthiness: a string is truthy when it is
  not empty.
\<close>

record filters =
  f_month :: "string option"
  f_year :: "string option"
  f_category :: "string option"
  f_search :: "string option"
  f_userId :: "string option"
  f_startDate :: "string option"
  f_endDate :: "string option"

definition truthy :: "string option \<Rightarrow> bool" where
  "truthy v = (case v of None \<Rightarrow> False | Some s \<Rightarrow> s \<noteq> [])"

text \<open>
  The conditions pushed on the \<open>conditions\<close> array: \<open>eq\<close>, \<open>gte\<close> and \<open>lte\<close> on a column,
  and \<open>like\<close> on the merchant name.
\<close>

datatype condition =
    EqUserId string
  | GteDate JSDate
  | LteDate JSDate
  | EqCategory string
  | LikeMerchant string

datatype error = RangeError | TypeError

text \<open>
  SQL \<open>LIKE\<close> of PostgreSQL, \<open>like pattern text\<close>: \<open>%\<close> matches any run of characters,
  \<open>_\<close> any one character, a backslash makes the next pattern character literal, and every
  other character matches itself and nothing else; upper and lower case are different
  characters. (A pattern that ends in a lone backslash is an error in PostgreSQL; the
  patterns built below end in \<open>%\<close>.)
\<close>

fun like :: "string \<Rightarrow> string \<Rightarrow> bool" where
  "like [] [] = True"
| "like [] (c # t) = False"
| "like (p # ps) [] = (p = CHR ''%'' \<and> like ps [])"
| "like (p # ps) (c # t) =
     (if p = CHR ''%'' then like ps (c # t) \<or> like (p # ps) t
      else if p = CHR ''_'' then like ps t
      else if p = CHR 0x5C then (case ps of [] \<Rightarrow> False | q # qs \<Rightarrow> c = q \<and> like qs t)
      else c = p \<and> like ps t)"

fun holds :: "condition \<Rightarrow> Receipt \<Rightarrow> bool" where
  "holds (EqUserId u) r = (userId r = u)"
| "holds (GteDate d) r = (case d of Some t \<Rightarrow> t \<le> date r | None \<Rightarrow> False)"
| "holds (LteDate d) r = (case d of Some t \<Rightarrow> date r \<le> t | None \<Rightarrow> False)"
| "holds (EqCategory c) r = (category r = c)"
| "holds (LikeMerchant p) r = like p (merchantName r)"

fun invalidDate :: "condition \<Rightarrow> bool" where
  "invalidDate (GteDate d) = (d = None)"
| "invalidDate (LteDate d) = (d = None)"
| "invalidDate _ = False"

text \<open>
  \<open>db.select().from(receipts).where(and(...conditions)).orderBy(desc(receipts.date))\<close> over
  the rows of the table. A \<open>Date\<close> parameter is sent to the driver as its ISO string, and
  \<open>toISOString\<close> of an Invalid Date throws a RangeError: the query then fails. Rows of the
  same date are returned in their table order.
\<close>

definition orderByDateDesc :: "Receipt list \<Rightarrow> Receipt list" where
  "orderByDateDesc rs = sort_key (\<lambda>r. - date r) rs"

definition selectWhere :: "Receipt list \<Rightarrow> condition list \<Rightarrow> error + Receipt list" where
  "selectWhere db conditions =
     (if list_ex invalidDate conditions then Inl RangeError
      else Inr (filter (\<lambda>r. list_all (\<lambda>c. holds c r) conditions) db))"

text \<open>\<open>if (v) conditions.push(mk(v))\<close>\<close>

definition pushIf :: "string option \<Rightarrow> (string \<Rightarrow> condition) \<Rightarrow> condition list" where
  "pushIf v mk = (case v of None \<Rightarrow> [] | Some s \<Rightarrow> if s \<noteq> [] then [mk s] else [])"

definition dateConditions :: "filters \<Rightarrow> condition list" where
  "dateConditions f =
     (if truthy (f_startDate f) \<or> truthy (f_endDate f) then
        pushIf (f_startDate f) (\<lambda>s. GteDate (Date_parse s)) @
        pushIf (f_endDate f) (\<lambda>s. LteDate (Date_parse s))
      else
        (case f_year f of
           None \<Rightarrow> []
         | Some year \<Rightarrow>
             if year = [] then []
             else if truthy (f_month f) then
               (let startOfMonth = Date_parse (year @ ''-'' @ the (f_month f) @ ''-01'');
                    endOfMonth =
                      (case startOfMonth of
                         None \<Rightarrow> None
                       | Some t \<Rightarrow> Some (Date_ymd (getFullYear t) (int (getMonth t) + 1) 0))
                in [GteDate startOfMonth, LteDate endOfMonth])
             else
               [GteDate (Date_parse (year @ ''-01-01'')),
                LteDate (Date_parse (year @ ''-12-31''))]))"

definition conditionsOf :: "filters \<Rightarrow> condition list" where
  "conditionsOf f =
     pushIf (f_userId f) EqUserId @
     dateConditions f @
     pushIf (f_category f) EqCategory @
     pushIf (f_search f) (\<lambda>s. LikeMerchant (''%'' @ s @ ''%''))"

definition getReceipts :: "Receipt list \<Rightarrow> filters \<Rightarrow> error + Receipt list" where
  "getReceipts db f =
     (case selectWhere db (conditionsOf f) of
        Inl e \<Rightarrow> Inl e
      | Inr rs \<Rightarrow> Inr (orderByDateDesc rs))"

section \<open>Request handlers (routes.ts)\<close>

text \<open>
  The query string of a request: a parameter name is mapped to its value when
  \<open>typeof req.query.name === 'string'\<close>, to \<open>None\<close> otherwise. Each handler builds its
  filter object from the query and calls \<open>storage.getReceipts\<close>; an exception becomes a
  500 response.
\<close>

type_synonym query = "string \<Rightarrow> string option"

datatype 'a response = Json 'a | Status500 string

text \<open>\<open>GET /api/receipts\<close>\<close>

definition listFilters :: "query \<Rightarrow> filters" where
  "listFilters q =
     \<lparr>f_month = q ''month'', f_year = q ''year'', f_category = q ''category'',
      f_search = q ''search'', f_userId = q ''userId'',
      f_startDate = q ''startDate'', f_endDate = q ''endDate''\<rparr>"

definition listReceipts :: "Receipt list \<Rightarrow> query \<Rightarrow> Receipt list response" where
  "listReceipts db q =
     (case getReceipts db (listFilters q) of
        Inr receiptsList \<Rightarrow> Json receiptsList
      | Inl e \<Rightarrow> Status500 ''Failed to list receipts'')"

text \<open>
  \<open>GET /api/receipts/export-pdf\<close> and \<open>GET /api/receipts/export\<close>: the filter object of
  both export handlers has no \<open>startDate\<close> and no \<open>endDate\<close> property. \<open>exportPdfData\<close>
  and \<open>exportData\<close> are the records the two handlers render (\<open>receiptsData\<close>, \<open>receipts\<close>).
\<close>

definition exportPdfFilters :: "query \<Rightarrow> filters" where
  "exportPdfFilters q =
     \<lparr>f_month = q ''month'', f_year = q ''year'', f_category = q ''category'',
      f_search = q ''search'', f_userId = q ''userId'',
      f_startDate = None, f_endDate = None\<rparr>"

definition exportFilters :: "query \<Rightarrow> filters" where
  "exportFilters q =
     \<lparr>f_month = q ''month'', f_year = q ''year'', f_category = q ''category'',
      f_search = q ''search'', f_userId = q ''userId'',
      f_startDate = None, f_endDate = None\<rparr>"

definition exportPdfData :: "Receipt list \<Rightarrow> query \<Rightarrow> error + Receipt list" where
  "exportPdfData db q = getReceipts db (exportPdfFilters q)"

definition exportData :: "Receipt list \<Rightarrow> query \<Rightarrow> error + Receipt list" where
  "exportData db q = getReceipts db (exportFilters q)"

section \<open>The JavaScript runtime: Map, objects, sort, toFixed\<close>

text \<open>
  A \<open>Map\<close> keeps its entries in insertion order; \<open>set\<close> on a key that is present replaces
  the value where the entry stands, \<open>set\<close> on a new key appends an entry; \<open>get\<close> is
  \<open>map_of\<close> (\<open>None\<close> is \<open>undefined\<close>).
\<close>

fun Map_set :: "'k \<Rightarrow> 'v \<Rightarrow> ('k \<times> 'v) list \<Rightarrow> ('k \<times> 'v) list" where
  "Map_set k v [] = [(k, v)]"
| "Map_set k v ((k', v') # m) = (if k' = k then (k, v) # m else (k', v') # Map_set k v m)"

text \<open>
  A plain object \<open>{}\<close> used as a dictionary: its own properties, in the order they were
  created. A read \<open>obj[k]\<close> also finds the members of \<open>Object.prototype\<close>, all of them
  truthy. \<open>Object.entries\<close> lists the own properties whose name is an array index (a
  canonical decimal numeral below 4294967295) first, in ascending numeric order, then the
  others in creation order.
\<close>

definition protoKeys :: "string list" where
  "protoKeys = [''constructor'', ''__proto__'', ''toString'', ''toLocaleString'', ''valueOf'',
                ''hasOwnProperty'', ''isPrototypeOf'', ''propertyIsEnumerable'',
                ''__defineGetter__'', ''__defineSetter__'', ''__lookupGetter__'',
                ''__lookupSetter__'']"






section \<open>Aggregation (storage.getReceiptStats)\<close>













section \<open>The export handlers' derivations\<close>

text \<open>
  \<open>Number(receipt.tax || (amount - amount / 1.05))\<close>, where \<open>amount = Number(receipt.amount)\<close>:
  the form both export handlers use.
\<close>

definition taxOr :: "Receipt \<Rightarrow> rat \<Rightarrow> rat" where
  "taxOr r derived = (case tax r of Some t \<Rightarrow> Number t | None \<Rightarrow> derived)"

text \<open>
  A ledger row of the PDF: \<open>amount\<close>, \<open>tax\<close> and \<open>preTax = amount - tax\<close>, given here as
  (pre-tax, tax, total); the row prints each with \<open>toFixed(2)\<close>.
\<close>

definition pdfRow :: "Receipt \<Rightarrow> rat \<times> rat \<times> rat" where
  "pdfRow receipt =
     (let amount = Number (amount receipt);
          tax = taxOr receipt (amount - amount / (105 / 100));
          preTax = amount - tax
      in (preTax, tax, amount))"


text \<open>The values \<open>{ amount, tax, count }\<close> of \<open>categoryTotals\<close> and \<open>summaryByCategory\<close>.\<close>

record catTotals =
  c_amount :: rat
  c_tax :: rat
  c_count :: nat

definition zeroCat :: catTotals where
  "zeroCat = \<lparr>c_amount = 0, c_tax = 0, c_count = 0\<rparr>"




text \<open>
  A row of the Excel detail sheet. \<open>Date\<close> is the local date string of the receipt, kept
  as its day number; the column \<open>Month-Year\<close> is \<open>Month\<close> and \<open>Year\<close> joined by a blank.
\<close>

record excelRow =
  Year :: int
  Month :: string
  Date :: int
  Category :: string
  Merchant :: string
  PreTax :: rat
  Tax :: rat
  TotalPaid :: rat
  Notes :: string

definition excelRowOf :: "Receipt \<Rightarrow> excelRow" where
  "excelRowOf r =
     (let total = Number (amount r);
          tax = taxOr r (total - total / (105 / 100));
          preTax = total - tax
      in \<lparr>Year = getFullYear (date r), Month = monthNames ! getMonth (date r),
          Date = date r div msPerDay, Category = category r, Merchant = merchantName r,
          PreTax = preTax, Tax = tax, TotalPaid = total,
          Notes = (case description r of None \<Rightarrow> [] | Some d \<Rightarrow> d)\<rparr>)"


text \<open>
  The loop that fills \<open>summaryByCategory\<close>. For a category named like a member of
  \<open>Object.prototype\<close> the read \<open>summaryByCategory[catKey]\<close> is truthy, no own property is
  created, and the three updates land on that member.
\<close>

definition excelCategoryStep ::
  "(string \<times> catTotals) list \<Rightarrow> excelRow \<Rightarrow> (string \<times> catTotals) list" where
  "excelCategoryStep summaryByCategory row =
     (let catKey = Category row in
      if catKey \<in> set protoKeys then summaryByCategory
      else
        (let cur = (case map_of summaryByCategory catKey of None \<Rightarrow> zeroCat | Some c \<Rightarrow> c)
         in Map_set catKey
              \<lparr>c_amount = c_amount cur + TotalPaid row, c_tax = c_tax cur + Tax row,
               c_count = c_count cur + 1\<rparr> summaryByCategory))"

definition summaryByCategory :: "excelRow list \<Rightarrow> (string \<times> catTotals) list" where
  "summaryByCategory rows = foldl excelCategoryStep [] rows"


section \<open>Auxiliary definitions for the proofs\<close>



text \<open>
  The two records of the specification's scenario: 105.00 paid at A on 2024-01-15 with no
  stored tax, 50.00 paid at B on 2024-02-10 with a stored tax of 10.00.
\<close>

definition sampleDb :: "Receipt list" where
  "sampleDb =
     [\<lparr>rid = 1, userId = ''user1'', merchantName = ''A'', date = 1705276800000, amount = 10500,
       tax = None, category = ''Food'', description = None\<rparr>,
      \<lparr>rid = 2, userId = ''user1'', merchantName = ''B'', date = 1707523200000, amount = 5000,
       tax = Some 1000, category = ''Travel'', description = None\<rparr>]"


text \<open>A search string with none of the characters that \<open>LIKE\<close> treats specially.\<close>

definition plain :: "string \<Rightarrow> bool" where
  "plain s = list_all (\<lambda>c. c \<noteq> CHR ''%'' \<and> c \<noteq> CHR ''_'' \<and> c \<noteq> CHR 0x5C) s"


text \<open>
  The specification's wording of the search rule, for comparison with the code: the
  merchant name contains the search string as a substring, letter case aside (ASCII).
\<close>

definition toLowerCase :: "char \<Rightarrow> char" where
  "toLowerCase c =
     (let n = of_char c :: nat in if 65 \<le> n \<and> n \<le> 90 then char_of (n + 32) else c)"

definition spec_containsIgnoreCase :: "string \<Rightarrow> string \<Rightarrow> bool" where
  "spec_containsIgnoreCase s name = sublist (map toLowerCase s) (map toLowerCase name)"

text \<open>Sample filters, queries and a record for the concrete evaluations below.\<close>

definition starbucks :: Receipt where
  "starbucks = \<lparr>rid = 5, userId = ''user1'', merchantName = ''Starbucks'', date = 1705276800000,
       amount = 450, tax = None, category = ''Food & Dining'', description = None\<rparr>"

definition noFilter :: filters where
  "noFilter = \<lparr>f_month = None, f_year = None, f_category = None, f_search = None,
      f_userId = None, f_startDate = None, f_endDate = None\<rparr>"






definition qFromFebruary :: query where
  "qFromFebruary = [''startDate'' \<mapsto> ''2024-02-01'']"







section \<open>Properties of the tax derivation\<close>

text \<open>
  C1. For every record the tax derivation returns the stored tax unchanged when one is
  stored, and otherwise \<open>amount - amount / 1.05\<close>. With no stored tax an amount of 0
  gives a tax of 0, and a negative amount goes through the same formula: the result is
  the negative number the formula gives, neither an error nor a value clamped at 0.
\<close>

theorem getTax_stored_or_derived:
  "(\<forall>t. tax r = Some t \<longrightarrow> getTax r = Number t) \<and>
   (tax r = None \<longrightarrow> getTax r = Number (amount r) - Number (amount r) / (105 / 100)) \<and>
   (tax r = None \<and> amount r = 0 \<longrightarrow> getTax r = 0) \<and>
   (tax r = None \<and> amount r < 0 \<longrightarrow> getTax r = Number (amount r) / 21 \<and> getTax r < 0)"
proof -
  have "Number (amount r) - Number (amount r) / (105 / 100) = Number (amount r) / 21"
    by (simp add: field_simps)
  moreover have "amount r < 0 \<Longrightarrow> Number (amount r) / 21 < 0"
    by (simp add: Number_def divide_neg_pos)
  ultimately show ?thesis
    by (auto simp: getTax_def Number_def)
qed

theorem getTax_stored_or_derived_witness:
  "getTax \<lparr>rid = 1, userId = ''user1'', merchantName = ''A'', date = 0, amount = 5000,
            tax = Some 1000, category = ''Travel'', description = None\<rparr> = 10 \<and>
   getTax \<lparr>rid = 2, userId = ''user1'', merchantName = ''B'', date = 0, amount = 10500,
            tax = None, category = ''Food'', description = None\<rparr> = 5 \<and>
   getTax \<lparr>rid = 3, userId = ''user1'', merchantName = ''C'', date = 0, amount = 0,
            tax = None, category = ''Food'', description = None\<rparr> = 0 \<and>
   getTax \<lparr>rid = 4, userId = ''user1'', merchantName = ''D'', date = 0, amount = - 2100,
            tax = None, category = ''Food'', description = None\<rparr> = - 1"
  using
    getTax_stored_or_derived [of "\<lparr>rid = 1, userId = ''user1'', merchantName = ''A'', date = 0,
      amount = 5000, tax = Some 1000, category = ''Travel'', description = None\<rparr>"]
    getTax_stored_or_derived [of "\<lparr>rid = 2, userId = ''user1'', merchantName = ''B'', date = 0,
      amount = 10500, tax = None, category = ''Food'', description = None\<rparr>"]
    getTax_stored_or_derived [of "\<lparr>rid = 3, userId = ''user1'', merchantName = ''C'', date = 0,
      amount = 0, tax = None, category = ''Food'', description = None\<rparr>"]
    getTax_stored_or_derived [of "\<lparr>rid = 4, userId = ''user1'', merchantName = ''D'', date = 0,
      amount = - 2100, tax = None, category = ''Food'', description = None\<rparr>"]
  by (simp add: Number_def)




text \<open>
  C9. For every record the three derivations give the same (pre-tax, tax, total): the
  PDF ledger row and the Excel detail row both have the summary's \<open>getTax\<close> as tax, the
  stored amount as total and their difference as pre-tax.
\<close>

theorem derivations_agree:
  "pdfRow r = (Number (amount r) - getTax r, getTax r, Number (amount r)) \<and>
   (PreTax (excelRowOf r), Tax (excelRowOf r), TotalPaid (excelRowOf r)) =
     (Number (amount r) - getTax r, getTax r, Number (amount r)) \<and>
   (PreTax (excelRowOf r), Tax (excelRowOf r), TotalPaid (excelRowOf r)) = pdfRow r"
  by (simp add: pdfRow_def excelRowOf_def taxOr_def getTax_def Let_def split: option.split)


section \<open>Properties of the selection\<close>

lemma like_percent: "like ''%'' t"
  by (induction t) simp_all

lemma like_plain_prefix: "plain s \<Longrightarrow> like (s @ ''%'') t \<longleftrightarrow> prefix s t"
proof (induction s arbitrary: t)
  case Nil
  then show ?case by (simp add: like_percent)
next
  case (Cons a s)
  then show ?case by (cases t) (auto simp: plain_def)
qed

lemma like_percent_suffix: "like (CHR ''%'' # ps) t \<longleftrightarrow> (\<exists>u. suffix u t \<and> like ps u)"
proof (induction t)
  case Nil
  then show ?case by simp
next
  case (Cons c t)
  then show ?case by (auto simp: suffix_Cons)
qed

lemma like_contains: "plain s \<Longrightarrow> like (''%'' @ s @ ''%'') t \<longleftrightarrow> sublist s t"
  by (simp add: like_percent_suffix like_plain_prefix sublist_altdef')

lemma selectWhere_append:
  "selectWhere db (cs @ ds) =
     (if list_ex invalidDate cs \<or> list_ex invalidDate ds then Inl RangeError
      else Inr (filter (\<lambda>r. list_all (\<lambda>c. holds c r) cs \<and> list_all (\<lambda>c. holds c r) ds) db))"
  by (simp add: selectWhere_def)




















text \<open>
  C10. The request \<open>?startDate=2024-02-01\<close> over the two sample records: the list query
  returns only the record of 2024-02-10, both export handlers render both records.
\<close>

theorem export_ignores_date_range:
  "listReceipts sampleDb qFromFebruary = Json (tl sampleDb) \<and>
   exportData sampleDb qFromFebruary = Inr (rev sampleDb) \<and>
   exportPdfData sampleDb qFromFebruary = Inr (rev sampleDb)"
  by code_simp


text \<open>
  C7 as stated fails: \<open>star\<close> is contained in \<open>Starbucks\<close> letter case aside, and the
  search for \<open>star\<close> does not select the record.
\<close>

theorem getReceipts_search_counterexample:
  "spec_containsIgnoreCase ''star'' (merchantName starbucks) \<and>
   getReceipts [starbucks] (noFilter\<lparr>f_search := Some ''star''\<rparr>) = Inr []"
proof -
  have "map toLowerCase ''star'' = ''star''" "map toLowerCase ''Starbucks'' = ''starbucks''"
    by code_simp+
  moreover have "sublist ''star'' ([] @ ''star'' @ ''bucks'')"
    by (rule sublist_appendI)
  ultimately have "spec_containsIgnoreCase ''star'' (merchantName starbucks)"
    by (simp add: spec_containsIgnoreCase_def starbucks_def)
  moreover have "getReceipts [starbucks] (noFilter\<lparr>f_search := Some ''star''\<rparr>) = Inr []"
    by code_simp
  ultimately show ?thesis by simp
qed

text \<open>
  C7, amended. For a search string that is set and has none of the characters \<open>%\<close>,
  \<open>_\<close> and backslash, selection keeps exactly, of the records the other rules select,
  those whose merchant name contains the search string as a substring, letter case
  included.
\<close>

theorem getReceipts_search_substring:
  assumes "f_search f = Some s" and "s \<noteq> []" and "plain s"
  shows "getReceipts db f =
           (case getReceipts db (f\<lparr>f_search := None\<rparr>) of
              Inl e \<Rightarrow> Inl e
            | Inr rs \<Rightarrow> Inr (filter (\<lambda>r. sublist s (merchantName r)) rs))"
proof -
  let ?g = "f\<lparr>f_search := None\<rparr>"
  have d: "dateConditions ?g = dateConditions f"
    by (simp add: dateConditions_def cong: if_cong option.case_cong)
  have c: "conditionsOf f = conditionsOf ?g @ [LikeMerchant (''%'' @ s @ ''%'')]"
    using assms(1,2) by (simp add: conditionsOf_def d pushIf_def)
  have h: "holds (LikeMerchant (''%'' @ s @ ''%'')) r \<longleftrightarrow> sublist s (merchantName r)" for r
    using like_contains [OF assms(3)] by simp
  have "selectWhere db (conditionsOf f) =
          (case selectWhere db (conditionsOf ?g) of
             Inl e \<Rightarrow> Inl e
           | Inr rs \<Rightarrow> Inr (filter (\<lambda>r. sublist s (merchantName r)) rs))"
    unfolding c by (simp add: selectWhere_def h del: holds.simps append.simps)
  then show ?thesis
    by (simp add: getReceipts_def orderByDateDesc_def filter_sort split: sum.splits)
qed

theorem getReceipts_search_substring_witness:
  "getReceipts [starbucks, hd sampleDb] (noFilter\<lparr>f_search := Some ''Star''\<rparr>) = Inr [starbucks]"
proof -
  have a: "f_search (noFilter\<lparr>f_search := Some ''Star''\<rparr>) = Some ''Star''" "''Star'' \<noteq> []"
    "plain ''Star''"
    by (simp_all add: noFilter_def plain_def)
  have n: "getReceipts [starbucks, hd sampleDb] (noFilter\<lparr>f_search := Some ''Star'', f_search := None\<rparr>) =
           Inr [starbucks, hd sampleDb]"
    by code_simp
  have s1: "sublist ''Star'' ([] @ ''Star'' @ ''bucks'')"
    by (rule sublist_appendI)
  have s2: "\<not> sublist ''Star'' ''A''"
    by (simp add: sublist_Cons_right)
  show ?thesis
    using getReceipts_search_substring [OF a, of "[starbucks, hd sampleDb]"] n s1 s2
    by (simp add: starbucks_def sampleDb_def)
qed


section \<open>Properties of the aggregation\<close>





































section \<open>Properties of the category tables\<close>




















end
